theory Spec2Isabelle
  imports Complex_Main
begin

section \<open>CloudGuard AI ML service: prediction engine and digital-twin store\<close>

text \<open>
  A shallow embedding of \<^verbatim>\<open>src/ai-service/main.py\<close>.

  Conventions of the embedding:
  \<^item> a Python \<^verbatim>\<open>float\<close> is the \<^typ>\<open>real\<close> number that it denotes, so comparisons
    of floats are comparisons of reals; the special values of IEEE 754 are not modelled;
  \<^item> in \<^verbatim>\<open>detect_anomalies\<close> and \<^verbatim>\<open>predict_cost\<close>, whose results are compared with
    constants, every arithmetic operation and every decimal literal is rounded: the
    float64 result is \<open>float64 env\<close> of the exact result, and \<^verbatim>\<open>np.mean\<close> is
    \<open>np_mean env\<close>; rounding and numpy's summation are collaborators of the record
    \<open>env\<close>, not definitions of this theory. Elsewhere (the feature window, the
    accuracy of a twin, the confidence of a performance prediction) the arithmetic is
    exact;
  \<^item> a Python \<^verbatim>\<open>dict\<close> built by a literal is an association list in the order of the
    literal; the twin registry \<^verbatim>\<open>self.twins\<close> is a map;
  \<^item> a raised exception is the \<open>Inl\<close> of a sum; \<^verbatim>\<open>except Exception\<close> catches every
    value of the exception type, \<^verbatim>\<open>HTTPException\<close> included, since it derives from
    \<^verbatim>\<open>Exception\<close>;
  \<^item> the learned models, the Redis client, the InfluxDB client, the clock and the
    rendering \<^verbatim>\<open>str(e)\<close> of an exception are parameters, gathered in the
    record \<open>env\<close>; every call of them that the code makes is a branch of the model;
  \<^item> each draw of \<^verbatim>\<open>np.random.random()\<close> is an argument of the function that draws it;
  \<^item> what the code does to the outside (model calls, log lines, cache writes,
    time-series writes) is returned as a list of events, in the order of the calls.
\<close>

subsection \<open>Data model\<close>

text \<open>
  The values that the service's dictionaries hold. \<open>VInt\<close> is kept apart from
  \<open>VFloat\<close> because \<^verbatim>\<open>max(0, x)\<close> returns the integer \<^verbatim>\<open>0\<close> itself when
  \<^verbatim>\<open>x\<close> is not greater.
\<close>

datatype pyval =
    VNone
  | VBool bool
  | VInt int
  | VFloat real
  | VStr string
  | VDict "(string \<times> pyval) list"

type_synonym pydict = "(string \<times> pyval) list"



text \<open>\<^verbatim>\<open>class MetricData(BaseModel)\<close>; the timestamp is kept as a count of nanoseconds.\<close>

record MetricData =
  timestamp :: int
  resource_id :: string
  cpu :: real
  memory :: real
  disk :: real
  network :: real

text \<open>\<^verbatim>\<open>class PredictionRequest(BaseModel)\<close>.\<close>

record PredictionRequest =
  req_resource_id :: string
  req_metrics :: "MetricData list"
  req_prediction_type :: string

text \<open>\<^verbatim>\<open>class DigitalTwinState(BaseModel)\<close>; \<open>predictions\<close> is \<^verbatim>\<open>Optional[Dict]\<close>.\<close>

record DigitalTwinState =
  twin_resource_id :: string
  state :: pydict
  predictions :: "pydict option"
  accuracy :: real

text \<open>
  Exceptions. \<open>HTTPException\<close> carries its status code and detail; any other exception
  of the libraries (a connection error of Redis or InfluxDB, a shape error of a model, a
  serialisation error) is \<open>Raised\<close> with a description.
\<close>

datatype exn =
    HTTPException nat string
  | Raised string

text \<open>One InfluxDB point of the measurement \<^verbatim>\<open>digital_twin_metrics\<close>.\<close>

record point =
  tag_resource_id :: string
  field_cpu :: real
  field_memory :: real
  field_disk :: real
  field_network :: real
  field_accuracy :: real
  point_time :: int

text \<open>What a call does to the outside, in the order of the calls.\<close>

datatype event =
    ModelPredict string "real list"
  | LogError string
  | RedisSetex string nat pydict
  | InfluxWrite point

text \<open>
  The collaborators. A model's \<^verbatim>\<open>predict\<close> returns its output row or raises; the
  widths of the rows are those of the last layers built in \<^verbatim>\<open>create_models\<close>
  (\<^verbatim>\<open>Dense(4)\<close>, \<^verbatim>\<open>Dense(4)\<close>, \<^verbatim>\<open>Dense(1)\<close>). \<open>redis_setex\<close> stands for
  \<^verbatim>\<open>redis_client.setex(key, ttl, json.dumps(value))\<close> as a whole: \<open>Some e\<close> when the
  serialisation or the write raises \<open>e\<close>. \<open>influx_write_api\<close> is the creation of the
  write handle, \<open>influx_write\<close> the write of the \<open>i\<close>-th point of a batch.
  \<open>float64\<close> rounds a real number to the float64 that an operation with that exact
  result, or a literal of that value, yields; \<open>np_mean\<close> is \<^verbatim>\<open>np.mean\<close> on the float64
  values of a list or of a row, with the summation order and the rounding of numpy.
\<close>

record env =
  performance_model :: "real list \<Rightarrow> exn + (real \<times> real \<times> real \<times> real)"
  anomaly_model :: "real list \<Rightarrow> exn + (real \<times> real \<times> real \<times> real)"
  cost_model :: "real list \<Rightarrow> exn + real"
  exn_str :: "exn \<Rightarrow> string"
  redis_setex :: "string \<Rightarrow> nat \<Rightarrow> pydict \<Rightarrow> exn option"
  influx_write_api :: "exn option"
  influx_write :: "nat \<Rightarrow> point \<Rightarrow> exn option"
  now_isoformat :: string
  float64 :: "real \<Rightarrow> real"
  np_mean :: "real list \<Rightarrow> real"

subsection \<open>Feature preparation\<close>

text \<open>
  \<^verbatim>\<open>preprocess_metrics\<close>: with fewer than ten samples the vector is left-padded with
  zero 4-tuples and the samples are appended as they are; otherwise the last ten
  samples (\<^verbatim>\<open>metrics[-10:]\<close>) are taken and every field is divided by 100.
\<close>

definition preprocess_metrics :: "MetricData list \<Rightarrow> real list" where
  "preprocess_metrics metrics =
     (if length metrics < 10 then
        concat (replicate (10 - length metrics) [0, 0, 0, 0]) @
        concat (map (\<lambda>metric. [cpu metric, memory metric, disk metric, network metric]) metrics)
      else
        concat (map (\<lambda>metric. [cpu metric / 100, memory metric / 100,
                                disk metric / 100, network metric / 100])
                    (drop (length metrics - 10) metrics)))"

subsection \<open>The three predictions\<close>

text \<open>
  \<^verbatim>\<open>predict_performance\<close>. The whole body stands in a \<^verbatim>\<open>try\<close>; the only call that
  can raise is the model's \<^verbatim>\<open>predict\<close>, and the handler logs and returns the error
  dictionary. \<open>r\<close> is the draw of \<^verbatim>\<open>np.random.random()\<close> for the confidence, made only
  after the model has returned.
\<close>

definition predict_performance :: "env \<Rightarrow> MetricData list \<Rightarrow> real \<Rightarrow> event list \<times> pydict" where
  "predict_performance env metrics r =
     (let processed_data = preprocess_metrics metrics in
      case performance_model env processed_data of
        Inl e \<Rightarrow>
          ([ModelPredict ''performance'' processed_data,
            LogError (''Performance prediction error: '' @ exn_str env e)],
           [(''error'', VStr (exn_str env e))])
      | Inr (p0, p1, p2, p3) \<Rightarrow>
          ([ModelPredict ''performance'' processed_data],
           [(''predicted_cpu'', VFloat (p0 * 100)),
            (''predicted_memory'', VFloat (p1 * 100)),
            (''predicted_disk'', VFloat (p2 * 100)),
            (''predicted_network'', VFloat (p3 * 100)),
            (''confidence'', VFloat (0.85 + r * 0.1)),
            (''prediction_horizon'', VStr ''1 hour'')]))"

text \<open>
  \<^verbatim>\<open>detect_anomalies\<close>: the empty sequence returns before any model call. Otherwise
  the input row is the latest sample (\<^verbatim>\<open>metrics[-1]\<close>), each field divided by
  \<^verbatim>\<open>100.0\<close>; the score is \<^verbatim>\<open>np.mean(np.square(input_data - reconstruction))\<close>, that is
  \<^verbatim>\<open>np.mean\<close> of the four rounded squares of the four rounded differences; the
  threshold is the float64 of the literal \<^verbatim>\<open>0.1\<close>.
\<close>

definition detect_anomalies :: "env \<Rightarrow> MetricData list \<Rightarrow> event list \<times> pydict" where
  "detect_anomalies env metrics =
     (if length metrics < 1 then
        ([], [(''anomaly_score'', VFloat 0), (''is_anomaly'', VBool False)])
      else
        let latest_metric = last metrics;
            x0 = float64 env (cpu latest_metric / 100);
            x1 = float64 env (memory latest_metric / 100);
            x2 = float64 env (disk latest_metric / 100);
            x3 = float64 env (network latest_metric / 100);
            input_data = [x0, x1, x2, x3] in
        case anomaly_model env input_data of
          Inl e \<Rightarrow>
            ([ModelPredict ''anomaly'' input_data,
              LogError (''Anomaly detection error: '' @ exn_str env e)],
             [(''error'', VStr (exn_str env e))])
        | Inr (y0, y1, y2, y3) \<Rightarrow>
            let anomaly_score = np_mean env
                  [float64 env ((float64 env (x0 - y0))\<^sup>2),
                   float64 env ((float64 env (x1 - y1))\<^sup>2),
                   float64 env ((float64 env (x2 - y2))\<^sup>2),
                   float64 env ((float64 env (x3 - y3))\<^sup>2)] in
            ([ModelPredict ''anomaly'' input_data],
             [(''anomaly_score'', VFloat anomaly_score),
              (''is_anomaly'', VBool (anomaly_score > float64 env 0.1)),
              (''threshold'', VFloat (float64 env 0.1)),
              (''confidence'', VFloat (float64 env 0.92))]))"

text \<open>
  The 8-wide feature row of the cost model: the four \<^verbatim>\<open>np.mean\<close> values over all
  samples, each divided by \<^verbatim>\<open>100.0\<close>, the number of samples and the three flags of
  the resource type.
\<close>

definition cost_features :: "env \<Rightarrow> MetricData list \<Rightarrow> string \<Rightarrow> real list" where
  "cost_features env metrics resource_type =
     [float64 env (np_mean env (map cpu metrics) / 100),
      float64 env (np_mean env (map memory metrics) / 100),
      float64 env (np_mean env (map disk metrics) / 100),
      float64 env (np_mean env (map network metrics) / 100),
      real (length metrics),
      (if resource_type = ''compute'' then 1 else 0),
      (if resource_type = ''database'' then 1 else 0),
      (if resource_type = ''storage'' then 1 else 0)]"

text \<open>\<^verbatim>\<open>max(0, x)\<close>: Python returns the second argument only when it is greater.\<close>

definition py_max0 :: "real \<Rightarrow> pyval" where
  "py_max0 x = (if x > 0 then VFloat x else VInt 0)"

text \<open>
  \<^verbatim>\<open>predict_cost\<close>, with its parameter \<^verbatim>\<open>resource_type\<close> (default \<^verbatim>\<open>"compute"\<close>).
  \<^verbatim>\<open>avg_cpu\<close> is \<^verbatim>\<open>np.mean([m.cpu for m in metrics])\<close>; the products are evaluated from
  the left, each one rounded.
\<close>

definition predict_cost :: "env \<Rightarrow> MetricData list \<Rightarrow> string \<Rightarrow> event list \<times> pydict" where
  "predict_cost env metrics resource_type =
     (if length metrics < 1 then ([], [(''predicted_cost'', VFloat 0)])
      else
        let avg_cpu = np_mean env (map cpu metrics);
            features = cost_features env metrics resource_type in
        case cost_model env features of
          Inl e \<Rightarrow>
            ([ModelPredict ''cost'' features,
              LogError (''Cost prediction error: '' @ exn_str env e)],
             [(''error'', VStr (exn_str env e))])
        | Inr cost_prediction \<Rightarrow>
            let base_cost = float64 env (cost_prediction * 100) in
            ([ModelPredict ''cost'' features],
             [(''predicted_daily_cost'', VFloat base_cost),
              (''predicted_monthly_cost'', VFloat (float64 env (base_cost * 30))),
              (''cost_trend'', VStr (if avg_cpu > 70 then ''increasing'' else ''stable'')),
              (''optimization_potential'',
                 py_max0 (float64 env
                   (float64 env (float64 env (100 - avg_cpu) * float64 env 0.01) *
                    base_cost)))]))"

text \<open>The default of the parameter \<^verbatim>\<open>resource_type\<close>, used by a call that omits it.\<close>

definition default_resource_type :: string where
  "default_resource_type = ''compute''"

subsection \<open>The digital-twin engine\<close>

text \<open>\<^verbatim>\<open>class DigitalTwinEngine\<close>: its state is the registry \<^verbatim>\<open>self.twins\<close>.\<close>

record engine =
  twins :: "string \<rightharpoonup> DigitalTwinState"

text \<open>\<^verbatim>\<open>DigitalTwinEngine.__init__\<close>.\<close>

definition engine_init :: engine where
  "engine_init = \<lparr>twins = Map.empty\<rparr>"

text \<open>\<^verbatim>\<open>twin.dict()\<close>.\<close>

definition twin_dict :: "DigitalTwinState \<Rightarrow> pydict" where
  "twin_dict twin =
     [(''resource_id'', VStr (twin_resource_id twin)),
      (''state'', VDict (state twin)),
      (''predictions'', (case predictions twin of None \<Rightarrow> VNone | Some p \<Rightarrow> VDict p)),
      (''accuracy'', VFloat (accuracy twin))]"

text \<open>
  \<^verbatim>\<open>create_twin\<close>. \<open>r\<close> is the draw of \<^verbatim>\<open>np.random.random()\<close>. The registry is
  assigned before the cache write, so the new twin is registered also when the cache
  write raises; the exception then leaves \<^verbatim>\<open>create_twin\<close>, which has no handler.
\<close>

definition create_twin ::
    "env \<Rightarrow> engine \<Rightarrow> string \<Rightarrow> pydict \<Rightarrow> real \<Rightarrow> engine \<times> event list \<times> (exn + DigitalTwinState)" where
  "create_twin env self rid initial_state r =
     (let twin = \<lparr>twin_resource_id = rid, state = initial_state,
                  predictions = None, accuracy = 0.75 + r * 0.2\<rparr>;
          self' = self\<lparr>twins := (twins self)(rid \<mapsto> twin)\<rparr>
      in case redis_setex env (''twin:'' @ rid) 3600 (twin_dict twin) of
           Some e \<Rightarrow> (self', [], Inl e)
         | None \<Rightarrow> (self', [RedisSetex (''twin:'' @ rid) 3600 (twin_dict twin)], Inr twin))"

text \<open>The point that \<^verbatim>\<open>store_twin_data\<close> builds for one metric.\<close>

definition twin_point :: "DigitalTwinState \<Rightarrow> MetricData \<Rightarrow> point" where
  "twin_point twin metric =
     \<lparr>tag_resource_id = twin_resource_id twin,
      field_cpu = cpu metric, field_memory = memory metric,
      field_disk = disk metric, field_network = network metric,
      field_accuracy = accuracy twin, point_time = timestamp metric\<rparr>"

text \<open>
  The loop of \<^verbatim>\<open>store_twin_data\<close>: one write per metric, stopped by the first write
  that raises. \<open>i\<close> counts the writes made so far.
\<close>

fun write_points ::
    "env \<Rightarrow> DigitalTwinState \<Rightarrow> nat \<Rightarrow> MetricData list \<Rightarrow> event list \<times> exn option" where
  "write_points env twin i [] = ([], None)"
| "write_points env twin i (metric # rest) =
     (case influx_write env i (twin_point twin metric) of
        Some e \<Rightarrow> ([], Some e)
      | None \<Rightarrow>
          (case write_points env twin (Suc i) rest of
             (evs, res) \<Rightarrow> (InfluxWrite (twin_point twin metric) # evs, res)))"

text \<open>The \<^verbatim>\<open>try\<close> block of \<^verbatim>\<open>store_twin_data\<close>.\<close>

definition store_twin_data_try ::
    "env \<Rightarrow> DigitalTwinState \<Rightarrow> MetricData list \<Rightarrow> event list \<times> exn option" where
  "store_twin_data_try env twin metrics =
     (case influx_write_api env of
        Some e \<Rightarrow> ([], Some e)
      | None \<Rightarrow> write_points env twin 0 metrics)"

text \<open>
  \<^verbatim>\<open>store_twin_data\<close>: \<^verbatim>\<open>except Exception\<close> logs what the block raised; nothing is
  raised to the caller and nothing is returned.
\<close>

definition store_twin_data :: "env \<Rightarrow> DigitalTwinState \<Rightarrow> MetricData list \<Rightarrow> event list" where
  "store_twin_data env twin metrics =
     (case store_twin_data_try env twin metrics of
        (evs, Some e) \<Rightarrow> evs @ [LogError (''Failed to store twin data: '' @ exn_str env e)]
      | (evs, None) \<Rightarrow> evs)"

text \<open>
  \<^verbatim>\<open>update_twin\<close>. \<open>r_create\<close> is the draw of a \<^verbatim>\<open>create_twin\<close> made for an unknown
  id, \<open>r_perf\<close> the draw of \<^verbatim>\<open>predict_performance\<close>. The twin read from the registry
  is the registered object itself, so both assignments change the registry.
  \<^verbatim>\<open>self.twins[resource_id]\<close> raises \<^verbatim>\<open>KeyError\<close> on a missing key.
\<close>

definition update_twin ::
    "env \<Rightarrow> engine \<Rightarrow> string \<Rightarrow> MetricData list \<Rightarrow> real \<Rightarrow> real \<Rightarrow>
     engine \<times> event list \<times> (exn + DigitalTwinState)" where
  "update_twin env self rid metrics r_create r_perf =
     (case (if twins self rid = None
            then (case create_twin env self rid [(''status'', VStr ''active'')] r_create of
                    (self', evs, Inl e) \<Rightarrow> (self', evs, Some e)
                  | (self', evs, Inr _) \<Rightarrow> (self', evs, None))
            else (self, [], None)) of
        (self1, evs0, Some e) \<Rightarrow> (self1, evs0, Inl e)
      | (self1, evs0, None) \<Rightarrow>
          (case twins self1 rid of
             None \<Rightarrow> (self1, evs0, Inl (Raised ''KeyError''))
           | Some twin \<Rightarrow>
               (case predict_performance env metrics r_perf of (evs1, performance) \<Rightarrow>
                case detect_anomalies env metrics of (evs2, anomaly) \<Rightarrow>
                case predict_cost env metrics default_resource_type of (evs3, cost) \<Rightarrow>
                  let preds = [(''performance'', VDict performance),
                               (''anomaly'', VDict anomaly),
                               (''cost'', VDict cost)];
                      twin' = twin\<lparr>predictions := Some preds,
                                    accuracy := min 0.99 (accuracy twin + 0.001)\<rparr>;
                      evs4 = store_twin_data env twin' metrics
                  in (self1\<lparr>twins := (twins self1)(rid \<mapsto> twin')\<rparr>,
                      evs0 @ evs1 @ evs2 @ evs3 @ evs4, Inr twin'))))"

subsection \<open>The endpoints\<close>

text \<open>
  The \<^verbatim>\<open>try\<close> block of \<^verbatim>\<open>predict_metrics\<close>: the dispatch on the prediction type,
  whose last branch raises \<^verbatim>\<open>HTTPException(status_code=400)\<close>, then the cache write and
  the response. \<^verbatim>\<open>predict_cost\<close> is called without a resource type.
\<close>

definition predict_metrics_try ::
    "env \<Rightarrow> PredictionRequest \<Rightarrow> real \<Rightarrow> event list \<times> (exn + pydict)" where
  "predict_metrics_try env request r =
     (case (if req_prediction_type request = ''performance''
              then Inr (predict_performance env (req_metrics request) r)
            else if req_prediction_type request = ''anomaly''
              then Inr (detect_anomalies env (req_metrics request))
            else if req_prediction_type request = ''cost''
              then Inr (predict_cost env (req_metrics request) default_resource_type)
            else Inl (HTTPException 400 ''Invalid prediction type'')) of
        Inl e \<Rightarrow> ([], Inl e)
      | Inr (evs, result) \<Rightarrow>
          let cache_key = ''prediction:'' @ req_resource_id request @ '':'' @
                          req_prediction_type request in
          (case redis_setex env cache_key 300 result of
             Some e \<Rightarrow> (evs, Inl e)
           | None \<Rightarrow>
               (evs @ [RedisSetex cache_key 300 result],
                Inr [(''resource_id'', VStr (req_resource_id request)),
                     (''prediction_type'', VStr (req_prediction_type request)),
                     (''result'', VDict result),
                     (''timestamp'', VStr (now_isoformat env))])))"

text \<open>
  \<^verbatim>\<open>predict_metrics\<close>: the handler \<^verbatim>\<open>except Exception as e\<close> encloses the whole block,
  the dispatch included; it logs and raises \<^verbatim>\<open>HTTPException(status_code=500,
  detail=str(e))\<close>.
\<close>

definition predict_metrics ::
    "env \<Rightarrow> PredictionRequest \<Rightarrow> real \<Rightarrow> event list \<times> (exn + pydict)" where
  "predict_metrics env request r =
     (case predict_metrics_try env request r of
        (evs, Inl e) \<Rightarrow>
          (evs @ [LogError (''Prediction error: '' @ exn_str env e)],
           Inl (HTTPException 500 (exn_str env e)))
      | (evs, Inr response) \<Rightarrow> (evs, Inr response))"

text \<open>The status code that the caller of an endpoint sees for a raised exception.\<close>

fun status_code :: "exn \<Rightarrow> nat" where
  "status_code (HTTPException code detail) = code"
| "status_code (Raised msg) = 500"

text \<open>\<^verbatim>\<open>create_digital_twin\<close> and \<^verbatim>\<open>update_digital_twin\<close> return \<^verbatim>\<open>twin.dict()\<close>.\<close>

definition create_digital_twin ::
    "env \<Rightarrow> engine \<Rightarrow> string \<Rightarrow> pydict \<Rightarrow> real \<Rightarrow> engine \<times> event list \<times> (exn + pydict)" where
  "create_digital_twin env self rid initial_state r =
     (case create_twin env self rid initial_state r of
        (self', evs, res) \<Rightarrow> (self', evs, map_sum id twin_dict res))"

definition update_digital_twin ::
    "env \<Rightarrow> engine \<Rightarrow> string \<Rightarrow> MetricData list \<Rightarrow> real \<Rightarrow> real \<Rightarrow>
     engine \<times> event list \<times> (exn + pydict)" where
  "update_digital_twin env self rid metrics r_create r_perf =
     (case update_twin env self rid metrics r_create r_perf of
        (self', evs, res) \<Rightarrow> (self', evs, map_sum id twin_dict res))"

subsection \<open>Registries that the service can reach, and runs of updates\<close>

text \<open>
  The registry starts empty and is changed by \<^verbatim>\<open>create_twin\<close> and \<^verbatim>\<open>update_twin\<close>
  only, whatever the collaborators do; every draw of \<^verbatim>\<open>np.random.random()\<close> lies in
  the half-open interval from 0 to 1.
\<close>

inductive reachable :: "engine \<Rightarrow> bool" where
  reachable_init: "reachable engine_init"
| reachable_create:
    "reachable self \<Longrightarrow> 0 \<le> r \<Longrightarrow> r < 1 \<Longrightarrow>
     reachable (fst (create_twin env self rid initial_state r))"
| reachable_update:
    "reachable self \<Longrightarrow> 0 \<le> r_create \<Longrightarrow> r_create < 1 \<Longrightarrow>
     reachable (fst (update_twin env self rid metrics r_create r_perf))"

text \<open>Every registered twin has an accuracy from 0.75 to 0.99.\<close>

definition accuracy_bounded :: "engine \<Rightarrow> bool" where
  "accuracy_bounded self =
     (\<forall>rid twin. twins self rid = Some twin \<longrightarrow> 0.75 \<le> accuracy twin \<and> accuracy twin \<le> 0.99)"

text \<open>
  One \<^verbatim>\<open>update_twin\<close> call of a run: the draw that a \<^verbatim>\<open>create_twin\<close> would use lies
  in the half-open interval from 0 to 1.
\<close>

fun draws_ok :: "env \<times> MetricData list \<times> real \<times> real \<Rightarrow> bool" where
  "draws_ok (env, metrics, r_create, r_perf) = (0 \<le> r_create \<and> r_create < 1)"

text \<open>
  A run of \<^verbatim>\<open>update_twin\<close> calls on one resource id, each with its own collaborators,
  metrics and draws: the accuracies of the twins that the calls return, in order. A call
  that raises returns no twin.
\<close>

fun accuracy_trace ::
    "engine \<Rightarrow> string \<Rightarrow> (env \<times> MetricData list \<times> real \<times> real) list \<Rightarrow> real list" where
  "accuracy_trace self rid [] = []"
| "accuracy_trace self rid ((env, metrics, r_create, r_perf) # calls) =
     (case update_twin env self rid metrics r_create r_perf of
        (self', evs, Inl e) \<Rightarrow> accuracy_trace self' rid calls
      | (self', evs, Inr twin) \<Rightarrow> accuracy twin # accuracy_trace self' rid calls)"

text \<open>The collaborators of \<open>env\<close> with a time-series store that never fails.\<close>

definition influx_healthy :: "env \<Rightarrow> env" where
  "influx_healthy env = env\<lparr>influx_write_api := None, influx_write := (\<lambda>i p. None)\<rparr>"

subsection \<open>Sample inputs\<close>

text \<open>A sample of resource \<^verbatim>\<open>r1\<close> with the given four utilisations.\<close>

definition sample :: "real \<Rightarrow> real \<Rightarrow> real \<Rightarrow> real \<Rightarrow> MetricData" where
  "sample c m d n =
     \<lparr>timestamp = 0, resource_id = ''r1'', cpu = c, memory = m, disk = d, network = n\<rparr>"

text \<open>One rendering of \<^verbatim>\<open>str(e)\<close>.\<close>

fun sample_str :: "exn \<Rightarrow> string" where
  "sample_str (HTTPException code detail) = detail"
| "sample_str (Raised msg) = msg"

text \<open>
  Collaborators that all answer: the anomaly model reconstructs every input as
  \<open>(0.2, 0.4, 0.4, 0.2)\<close>, the cost model answers 1. Rounding changes nothing and
  the mean is the exact one, which is what float64 computes wherever every intermediate
  result is representable.
\<close>

definition env_up :: env where
  "env_up =
     \<lparr>performance_model = (\<lambda>x. Inr (1 / 2, 1 / 2, 1 / 2, 1 / 2)),
      anomaly_model = (\<lambda>x. Inr (2 / 10, 4 / 10, 4 / 10, 2 / 10)),
      cost_model = (\<lambda>x. Inr 1),
      exn_str = sample_str,
      redis_setex = (\<lambda>key ttl val. None),
      influx_write_api = None,
      influx_write = (\<lambda>i p. None),
      now_isoformat = ''2024-01-01T00:00:00'',
      float64 = (\<lambda>x. x),
      np_mean = (\<lambda>xs. sum_list xs / real (length xs))\<rparr>"

text \<open>The same collaborators with an unreachable time-series store.\<close>

definition env_influx_down :: env where
  "env_influx_down = env_up\<lparr>influx_write_api := Some (Raised ''connection refused'')\<rparr>"

text \<open>A registry with one twin under \<^verbatim>\<open>r1\<close> that has predictions already.\<close>

definition engine_r1 :: engine where
  "engine_r1 =
     \<lparr>twins = [''r1'' \<mapsto>
        \<lparr>twin_resource_id = ''r1'', state = [(''status'', VStr ''active'')],
         predictions = Some [(''cost'', VDict [(''predicted_cost'', VFloat 0)])],
         accuracy = 9 / 10\<rparr>]\<rparr>"







text \<open>Eleven samples of \<^verbatim>\<open>r1\<close>, the first of which falls out of a window of ten.\<close>

definition eleven_samples :: "MetricData list" where
  "eleven_samples =
     [sample 0 1 2 3, sample 10 11 12 13, sample 20 21 22 23, sample 30 31 32 33,
      sample 40 41 42 43, sample 50 51 52 53, sample 60 61 62 63, sample 70 71 72 73,
      sample 80 81 82 83, sample 90 91 92 93, sample 100 101 102 103]"

section \<open>Properties\<close>

subsection \<open>Lists of 4-tuples\<close>

lemma concat_replicate_zero_quads:
  "concat (replicate k [0, 0, 0, 0::real]) = replicate (4 * k) 0"
proof (induction k)
  case 0
  then show ?case by simp
next
  case (Suc k)
  have r4: "replicate 4 (0::real) = [0, 0, 0, 0]"
    by (simp add: numeral_eq_Suc)
  show ?case using Suc by (simp add: replicate_add r4)
qed

lemma length_concat_quads:
  "length (concat (map (\<lambda>m. [a m, b m, c m, d m]) xs)) = 4 * length xs"
  by (induction xs) simp_all

lemma nth_concat_quads:
  "j < length xs \<Longrightarrow>
     concat (map (\<lambda>m. [a m, b m, c m, d m]) xs) ! (4 * j) = a (xs ! j) \<and>
     concat (map (\<lambda>m. [a m, b m, c m, d m]) xs) ! (4 * j + 1) = b (xs ! j) \<and>
     concat (map (\<lambda>m. [a m, b m, c m, d m]) xs) ! (4 * j + 2) = c (xs ! j) \<and>
     concat (map (\<lambda>m. [a m, b m, c m, d m]) xs) ! (4 * j + 3) = d (xs ! j)"
proof (induction xs arbitrary: j)
  case Nil
  then show ?case by simp
next
  case (Cons x xs)
  show ?case
  proof (cases j)
    case 0
    then show ?thesis by simp
  next
    case (Suc k)
    with Cons.prems have k: "k < length xs" by simp
    have e: "4 * Suc k = Suc (Suc (Suc (Suc (4 * k))))" by simp
    from Cons.IH [OF k] show ?thesis unfolding Suc e by (simp add: add.commute)
  qed
qed

subsection \<open>The performance feature vector\<close>

text \<open>
  Claim C2. For a metrics sequence of length \<open>n < 10\<close> (\<open>n = 0\<close> included) the
  performance feature vector has width 40; its first \<open>4 * (10 - n)\<close> entries are 0 and
  the remaining \<open>4 * n\<close> entries are the cpu, memory, disk and network values of the
  samples, in order and as given: they are not divided by 100.
\<close>

theorem preprocess_metrics_padded:
  assumes "length metrics < 10"
  shows "length (preprocess_metrics metrics) = 40 \<and>
         take (4 * (10 - length metrics)) (preprocess_metrics metrics) =
           replicate (4 * (10 - length metrics)) 0 \<and>
         length (drop (4 * (10 - length metrics)) (preprocess_metrics metrics)) =
           4 * length metrics \<and>
         drop (4 * (10 - length metrics)) (preprocess_metrics metrics) =
           concat (map (\<lambda>m. [cpu m, memory m, disk m, network m]) metrics)"
  using assms
  by (simp add: preprocess_metrics_def concat_replicate_zero_quads length_concat_quads)

theorem preprocess_metrics_padded_witness:
  "length [sample 80 60 40 20, sample 50 30 10 5] < 10 \<and>
   length (preprocess_metrics [sample 80 60 40 20, sample 50 30 10 5]) = 40 \<and>
   take 32 (preprocess_metrics [sample 80 60 40 20, sample 50 30 10 5]) = replicate 32 0 \<and>
   drop 32 (preprocess_metrics [sample 80 60 40 20, sample 50 30 10 5]) =
     [80, 60, 40, 20, 50, 30, 10, 5]"
  using preprocess_metrics_padded [of "[sample 80 60 40 20, sample 50 30 10 5]"]
  by (simp add: sample_def)

text \<open>
  Claim C7. For a metrics sequence of length at least 10 the performance feature vector
  has width 40 and holds the cpu, memory, disk and network fields of the last 10
  samples, in order, each divided by 100.
\<close>

theorem preprocess_metrics_window:
  assumes "10 \<le> length metrics"
  shows "length (preprocess_metrics metrics) = 40 \<and>
         (\<forall>i<10.
            preprocess_metrics metrics ! (4 * i) =
              cpu (metrics ! (length metrics - 10 + i)) / 100 \<and>
            preprocess_metrics metrics ! (4 * i + 1) =
              memory (metrics ! (length metrics - 10 + i)) / 100 \<and>
            preprocess_metrics metrics ! (4 * i + 2) =
              disk (metrics ! (length metrics - 10 + i)) / 100 \<and>
            preprocess_metrics metrics ! (4 * i + 3) =
              network (metrics ! (length metrics - 10 + i)) / 100)"
proof -
  let ?recent = "drop (length metrics - 10) metrics"
  have len: "length ?recent = 10" using assms by simp
  have pre: "preprocess_metrics metrics =
      concat (map (\<lambda>m. [cpu m / 100, memory m / 100, disk m / 100, network m / 100]) ?recent)"
    using assms by (simp add: preprocess_metrics_def)
  have nth: "?recent ! i = metrics ! (length metrics - 10 + i)" if "i < 10" for i
    using that assms by simp
  show ?thesis
  proof (intro conjI allI impI)
    show "length (preprocess_metrics metrics) = 40"
      unfolding pre length_concat_quads len by simp
  next
    fix i :: nat assume i: "i < 10"
    then have il: "i < length ?recent" using len by simp
    note q = nth_concat_quads [OF il, of "\<lambda>m. cpu m / 100" "\<lambda>m. memory m / 100"
        "\<lambda>m. disk m / 100" "\<lambda>m. network m / 100"]
    show "preprocess_metrics metrics ! (4 * i) =
        cpu (metrics ! (length metrics - 10 + i)) / 100"
      unfolding pre using q nth [OF i] by simp
    show "preprocess_metrics metrics ! (4 * i + 1) =
        memory (metrics ! (length metrics - 10 + i)) / 100"
      unfolding pre using q nth [OF i] by simp
    show "preprocess_metrics metrics ! (4 * i + 2) =
        disk (metrics ! (length metrics - 10 + i)) / 100"
      unfolding pre using q nth [OF i] by simp
    show "preprocess_metrics metrics ! (4 * i + 3) =
        network (metrics ! (length metrics - 10 + i)) / 100"
      unfolding pre using q nth [OF i] by simp
  qed
qed

theorem preprocess_metrics_window_witness:
  "10 \<le> length eleven_samples \<and>
   length (preprocess_metrics eleven_samples) = 40 \<and>
   preprocess_metrics eleven_samples ! 0 = 10 / 100 \<and>
   preprocess_metrics eleven_samples ! 1 = 11 / 100 \<and>
   preprocess_metrics eleven_samples ! 38 = 102 / 100 \<and>
   preprocess_metrics eleven_samples ! 39 = 103 / 100"
proof -
  have n: "10 \<le> length eleven_samples"
    by (simp add: eleven_samples_def)
  have l: "length eleven_samples - 10 = 1"
    by (simp add: eleven_samples_def)
  have i0: "(0::nat) < 10" and i9: "(9::nat) < 10"
    by simp_all
  note w = preprocess_metrics_window [OF n]
  note w0 = w [THEN conjunct2, rule_format, OF i0]
  note w9 = w [THEN conjunct2, rule_format, OF i9]
  have a: "length (preprocess_metrics eleven_samples) = 40"
    using w by (rule conjunct1)
  have e1: "eleven_samples ! Suc 0 = sample 10 11 12 13"
    by (simp add: eleven_samples_def)
  have e10: "eleven_samples ! 10 = sample 100 101 102 103"
    by (simp add: eleven_samples_def)
  have b: "preprocess_metrics eleven_samples ! 0 = 10 / 100"
    using w0 [THEN conjunct1] unfolding l by (simp add: e1 sample_def)
  have c: "preprocess_metrics eleven_samples ! 1 = 11 / 100"
    using w0 [THEN conjunct2, THEN conjunct1] unfolding l by (simp add: e1 sample_def)
  have d: "preprocess_metrics eleven_samples ! 38 = 102 / 100"
    using w9 [THEN conjunct2, THEN conjunct2, THEN conjunct1] unfolding l
    by (simp add: e10 sample_def)
  have e: "preprocess_metrics eleven_samples ! 39 = 103 / 100"
    using w9 [THEN conjunct2, THEN conjunct2, THEN conjunct2] unfolding l
    by (simp add: e10 sample_def)
  from n a b c d e show ?thesis by blast
qed

subsection \<open>The prediction endpoint\<close>

text \<open>
  Claim C1. A prediction request whose type is none of \<^verbatim>\<open>performance\<close>,
  \<^verbatim>\<open>anomaly\<close>, \<^verbatim>\<open>cost\<close> is to be rejected as a client fault, status 400. The
  code raises the \<^verbatim>\<open>HTTPException\<close> with status 400 inside the \<^verbatim>\<open>try\<close> block whose
  handler catches every \<^verbatim>\<open>Exception\<close>; the handler logs it and raises a new one with
  status 500. For the request of type \<^verbatim>\<open>latency\<close> the caller receives status 500.
\<close>

theorem predict_metrics_unknown_type_500:
  "predict_metrics env
     \<lparr>req_resource_id = ''r1'', req_metrics = [], req_prediction_type = ''latency''\<rparr> r =
   ([LogError (''Prediction error: '' @
        exn_str env (HTTPException 400 ''Invalid prediction type''))],
    Inl (HTTPException 500 (exn_str env (HTTPException 400 ''Invalid prediction type'')))) \<and>
   status_code (HTTPException 500 (exn_str env (HTTPException 400 ''Invalid prediction type'')))
     = 500"
  by (simp add: predict_metrics_def predict_metrics_try_def)

text \<open>The same for every type outside the three.\<close>

lemma predict_metrics_unknown_type:
  assumes "req_prediction_type request \<noteq> ''performance''"
    and "req_prediction_type request \<noteq> ''anomaly''"
    and "req_prediction_type request \<noteq> ''cost''"
  shows "snd (predict_metrics env request r) =
           Inl (HTTPException 500 (exn_str env (HTTPException 400 ''Invalid prediction type'')))"
  using assms by (simp add: predict_metrics_def predict_metrics_try_def)

subsection \<open>Anomaly detection\<close>

text \<open>
  Claim C4. For the empty metrics sequence \<^verbatim>\<open>detect_anomalies\<close> returns the dictionary
  \<^verbatim>\<open>{"anomaly_score": 0.0, "is_anomaly": False}\<close>; no event is recorded, so the
  anomaly model is not called, and the function returns a dictionary, not an exception.
\<close>

theorem detect_anomalies_empty:
  "detect_anomalies env [] =
     ([], [(''anomaly_score'', VFloat 0), (''is_anomaly'', VBool False)])"
  by (simp add: detect_anomalies_def)





subsection \<open>Cost prediction\<close>






subsection \<open>Creating a twin\<close>

text \<open>
  Claim C8. For every resource id and initial state, with a draw in the half-open
  interval from 0 to 1, \<^verbatim>\<open>create_twin\<close> registers under the id a twin built from its
  arguments alone: the given state, no predictions, an accuracy of at least 0.75 and
  less than 0.95. The entry replaces whatever the registry held under the id, the other
  entries stay, and the twin is the returned value unless the cache write raises.
\<close>

theorem create_twin_replaces:
  assumes "0 \<le> r" and "r < 1"
  shows "twins (fst (create_twin env self rid initial_state r)) =
           (twins self)(rid \<mapsto>
              \<lparr>twin_resource_id = rid, state = initial_state,
               predictions = None, accuracy = 0.75 + r * 0.2\<rparr>) \<and>
         0.75 \<le> 0.75 + r * 0.2 \<and> 0.75 + r * 0.2 < (0.95::real) \<and>
         (snd (snd (create_twin env self rid initial_state r)) =
            Inr \<lparr>twin_resource_id = rid, state = initial_state,
                 predictions = None, accuracy = 0.75 + r * 0.2\<rparr> \<or>
          (\<exists>e. redis_setex env (''twin:'' @ rid) 3600
                  (twin_dict \<lparr>twin_resource_id = rid, state = initial_state,
                     predictions = None, accuracy = 0.75 + r * 0.2\<rparr>) = Some e \<and>
               snd (snd (create_twin env self rid initial_state r)) = Inl e))"
  using assms by (auto simp add: create_twin_def Let_def split: option.splits)

theorem create_twin_replaces_witness:
  "(0::real) \<le> 1 / 2 \<and> (1::real) / 2 < 1 \<and>
   twins engine_r1 ''r1'' =
     Some \<lparr>twin_resource_id = ''r1'', state = [(''status'', VStr ''active'')],
          predictions = Some [(''cost'', VDict [(''predicted_cost'', VFloat 0)])],
          accuracy = 9 / 10\<rparr> \<and>
   twins (fst (create_twin env_up engine_r1 ''r1'' [(''region'', VStr ''eu'')] (1 / 2))) ''r1'' =
     Some \<lparr>twin_resource_id = ''r1'', state = [(''region'', VStr ''eu'')],
          predictions = None, accuracy = 85 / 100\<rparr>"
proof -
  have a: "(0::real) \<le> 1 / 2" and b: "(1::real) / 2 < 1" by simp_all
  note t = create_twin_replaces [OF a b, of env_up engine_r1 "''r1''" "[(''region'', VStr ''eu'')]"]
  have old: "twins engine_r1 ''r1'' =
     Some \<lparr>twin_resource_id = ''r1'', state = [(''status'', VStr ''active'')],
          predictions = Some [(''cost'', VDict [(''predicted_cost'', VFloat 0)])],
          accuracy = 9 / 10\<rparr>"
    by (simp add: engine_r1_def)
  have new: "twins (fst (create_twin env_up engine_r1 ''r1'' [(''region'', VStr ''eu'')] (1 / 2))) ''r1'' =
     Some \<lparr>twin_resource_id = ''r1'', state = [(''region'', VStr ''eu'')],
          predictions = None, accuracy = 85 / 100\<rparr>"
    using t by simp
  from a b old new show ?thesis by simp
qed

subsection \<open>Updating a twin, case by case\<close>

text \<open>
  The three ways through \<^verbatim>\<open>update_twin\<close>: the id is registered; the id is unknown and
  the cache write of the \<^verbatim>\<open>create_twin\<close> call raises; the id is unknown and the cache
  write succeeds.
\<close>

lemma update_twin_existing:
  assumes "twins self rid = Some twin"
  shows "update_twin env self rid metrics r_create r_perf =
     (self\<lparr>twins := (twins self)(rid \<mapsto>
         twin\<lparr>predictions := Some
                 [(''performance'', VDict (snd (predict_performance env metrics r_perf))),
                  (''anomaly'', VDict (snd (detect_anomalies env metrics))),
                  (''cost'', VDict (snd (predict_cost env metrics default_resource_type)))],
              accuracy := min 0.99 (accuracy twin + 0.001)\<rparr>)\<rparr>,
      fst (predict_performance env metrics r_perf) @ fst (detect_anomalies env metrics) @
      fst (predict_cost env metrics default_resource_type) @
      store_twin_data env
        (twin\<lparr>predictions := Some
                 [(''performance'', VDict (snd (predict_performance env metrics r_perf))),
                  (''anomaly'', VDict (snd (detect_anomalies env metrics))),
                  (''cost'', VDict (snd (predict_cost env metrics default_resource_type)))],
              accuracy := min 0.99 (accuracy twin + 0.001)\<rparr>) metrics,
      Inr (twin\<lparr>predictions := Some
                 [(''performance'', VDict (snd (predict_performance env metrics r_perf))),
                  (''anomaly'', VDict (snd (detect_anomalies env metrics))),
                  (''cost'', VDict (snd (predict_cost env metrics default_resource_type)))],
              accuracy := min 0.99 (accuracy twin + 0.001)\<rparr>))"
  using assms by (simp add: update_twin_def Let_def case_prod_beta)

lemma create_twin_registry:
  "fst (create_twin env self rid initial_state r) =
     self\<lparr>twins := (twins self)(rid \<mapsto>
        \<lparr>twin_resource_id = rid, state = initial_state,
         predictions = None, accuracy = 0.75 + r * 0.2\<rparr>)\<rparr>"
  by (simp add: create_twin_def Let_def split: option.splits)

lemma update_twin_absent_raises:
  assumes "twins self rid = None"
    and "redis_setex env (''twin:'' @ rid) 3600
           (twin_dict \<lparr>twin_resource_id = rid, state = [(''status'', VStr ''active'')],
              predictions = None, accuracy = 0.75 + r_create * 0.2\<rparr>) = Some e"
  shows "update_twin env self rid metrics r_create r_perf =
     (self\<lparr>twins := (twins self)(rid \<mapsto>
        \<lparr>twin_resource_id = rid, state = [(''status'', VStr ''active'')],
         predictions = None, accuracy = 0.75 + r_create * 0.2\<rparr>)\<rparr>, [], Inl e)"
  using assms by (simp add: update_twin_def create_twin_def Let_def)

lemma update_twin_absent_created:
  assumes "twins self rid = None"
    and "redis_setex env (''twin:'' @ rid) 3600
           (twin_dict \<lparr>twin_resource_id = rid, state = [(''status'', VStr ''active'')],
              predictions = None, accuracy = 0.75 + r_create * 0.2\<rparr>) = None"
  shows "update_twin env self rid metrics r_create r_perf =
     (self\<lparr>twins := (twins self)(rid \<mapsto>
         \<lparr>twin_resource_id = rid, state = [(''status'', VStr ''active'')],
          predictions = Some
            [(''performance'', VDict (snd (predict_performance env metrics r_perf))),
             (''anomaly'', VDict (snd (detect_anomalies env metrics))),
             (''cost'', VDict (snd (predict_cost env metrics default_resource_type)))],
          accuracy = min 0.99 (0.75 + r_create * 0.2 + 0.001)\<rparr>)\<rparr>,
      RedisSetex (''twin:'' @ rid) 3600
        (twin_dict \<lparr>twin_resource_id = rid, state = [(''status'', VStr ''active'')],
           predictions = None, accuracy = 0.75 + r_create * 0.2\<rparr>) #
      fst (predict_performance env metrics r_perf) @ fst (detect_anomalies env metrics) @
      fst (predict_cost env metrics default_resource_type) @
      store_twin_data env
        \<lparr>twin_resource_id = rid, state = [(''status'', VStr ''active'')],
          predictions = Some
            [(''performance'', VDict (snd (predict_performance env metrics r_perf))),
             (''anomaly'', VDict (snd (detect_anomalies env metrics))),
             (''cost'', VDict (snd (predict_cost env metrics default_resource_type)))],
          accuracy = min 0.99 (0.75 + r_create * 0.2 + 0.001)\<rparr> metrics,
      Inr \<lparr>twin_resource_id = rid, state = [(''status'', VStr ''active'')],
          predictions = Some
            [(''performance'', VDict (snd (predict_performance env metrics r_perf))),
             (''anomaly'', VDict (snd (detect_anomalies env metrics))),
             (''cost'', VDict (snd (predict_cost env metrics default_resource_type)))],
          accuracy = min 0.99 (0.75 + r_create * 0.2 + 0.001)\<rparr>)"
  using assms by (simp add: update_twin_def create_twin_def Let_def case_prod_beta)

subsection \<open>The persistence hand-off\<close>

text \<open>Nothing but the time-series writes reads the InfluxDB collaborators.\<close>

lemma predict_performance_influx:
  "predict_performance (influx_healthy env) metrics r = predict_performance env metrics r"
  by (simp add: predict_performance_def influx_healthy_def Let_def split: sum.splits prod.splits)

lemma detect_anomalies_influx:
  "detect_anomalies (influx_healthy env) metrics = detect_anomalies env metrics"
  by (simp add: detect_anomalies_def influx_healthy_def Let_def split: sum.splits)

lemma cost_features_influx:
  "cost_features (influx_healthy env) metrics rt = cost_features env metrics rt"
  by (simp add: cost_features_def influx_healthy_def)

lemma predict_cost_influx:
  "predict_cost (influx_healthy env) metrics rt = predict_cost env metrics rt"
proof -
  have f: "cost_model (influx_healthy env) = cost_model env"
    "exn_str (influx_healthy env) = exn_str env"
    "float64 (influx_healthy env) = float64 env"
    "np_mean (influx_healthy env) = np_mean env"
    by (simp_all add: influx_healthy_def)
  show ?thesis
    by (simp add: predict_cost_def Let_def cost_features_influx f split: sum.splits)
qed

lemma redis_setex_influx:
  "redis_setex (influx_healthy env) = redis_setex env"
  by (simp add: influx_healthy_def)

lemma update_twin_registry_influx:
  "fst (update_twin (influx_healthy env) self rid metrics r_create r_perf) =
   fst (update_twin env self rid metrics r_create r_perf)"
proof (cases "twins self rid")
  case (Some twin)
  show ?thesis
    unfolding update_twin_existing [OF Some]
    by (simp add: predict_performance_influx detect_anomalies_influx predict_cost_influx)
next
  case None
  let ?fresh = "\<lparr>twin_resource_id = rid, state = [(''status'', VStr ''active'')],
      predictions = None, accuracy = 0.75 + r_create * 0.2\<rparr>"
  show ?thesis
  proof (cases "redis_setex env (''twin:'' @ rid) 3600 (twin_dict ?fresh)")
    case n: None
    then have n': "redis_setex (influx_healthy env) (''twin:'' @ rid) 3600 (twin_dict ?fresh) = None"
      by (simp add: redis_setex_influx)
    show ?thesis
      unfolding update_twin_absent_created [OF None n] update_twin_absent_created [OF None n']
      by (simp add: predict_performance_influx detect_anomalies_influx predict_cost_influx)
  next
    case s: (Some e)
    then have s': "redis_setex (influx_healthy env) (''twin:'' @ rid) 3600 (twin_dict ?fresh) = Some e"
      by (simp add: redis_setex_influx)
    show ?thesis
      unfolding update_twin_absent_raises [OF None s] update_twin_absent_raises [OF None s']
      by simp
  qed
qed

lemma update_twin_result_influx:
  "snd (snd (update_twin (influx_healthy env) self rid metrics r_create r_perf)) =
   snd (snd (update_twin env self rid metrics r_create r_perf))"
proof (cases "twins self rid")
  case (Some twin)
  show ?thesis
    unfolding update_twin_existing [OF Some]
    by (simp add: predict_performance_influx detect_anomalies_influx predict_cost_influx)
next
  case None
  let ?fresh = "\<lparr>twin_resource_id = rid, state = [(''status'', VStr ''active'')],
      predictions = None, accuracy = 0.75 + r_create * 0.2\<rparr>"
  show ?thesis
  proof (cases "redis_setex env (''twin:'' @ rid) 3600 (twin_dict ?fresh)")
    case n: None
    then have n': "redis_setex (influx_healthy env) (''twin:'' @ rid) 3600 (twin_dict ?fresh) = None"
      by (simp add: redis_setex_influx)
    show ?thesis
      unfolding update_twin_absent_created [OF None n] update_twin_absent_created [OF None n']
      by (simp add: predict_performance_influx detect_anomalies_influx predict_cost_influx)
  next
    case s: (Some e)
    then have s': "redis_setex (influx_healthy env) (''twin:'' @ rid) 3600 (twin_dict ?fresh) = Some e"
      by (simp add: redis_setex_influx)
    show ?thesis
      unfolding update_twin_absent_raises [OF None s] update_twin_absent_raises [OF None s']
      by simp
  qed
qed

lemma store_twin_data_logs:
  assumes "snd (store_twin_data_try env twin metrics) = Some e"
  shows "store_twin_data env twin metrics =
     fst (store_twin_data_try env twin metrics) @
     [LogError (''Failed to store twin data: '' @ exn_str env e)]"
  using assms by (simp add: store_twin_data_def case_prod_beta)

lemma update_twin_returned_events:
  assumes "snd (snd (update_twin env self rid metrics r_create r_perf)) = Inr twin'"
  shows "\<exists>evs. fst (snd (update_twin env self rid metrics r_create r_perf)) =
           evs @ store_twin_data env twin' metrics"
proof (cases "twins self rid")
  case (Some twin)
  from assms show ?thesis
    unfolding update_twin_existing [OF Some] by auto
next
  case None
  let ?fresh = "\<lparr>twin_resource_id = rid, state = [(''status'', VStr ''active'')],
      predictions = None, accuracy = 0.75 + r_create * 0.2\<rparr>"
  show ?thesis
  proof (cases "redis_setex env (''twin:'' @ rid) 3600 (twin_dict ?fresh)")
    case n: None
    from assms show ?thesis
      unfolding update_twin_absent_created [OF None n]
      by (auto intro: exI [where x = "[RedisSetex (''twin:'' @ rid) 3600 (twin_dict ?fresh)] @
            fst (predict_performance env metrics r_perf) @ fst (detect_anomalies env metrics) @
            fst (predict_cost env metrics default_resource_type)"])
  next
    case s: (Some e)
    from assms show ?thesis
      unfolding update_twin_absent_raises [OF None s] by simp
  qed
qed

lemma update_twin_raises_only_cache:
  assumes "snd (snd (update_twin env self rid metrics r_create r_perf)) = Inl e"
  shows "twins self rid = None \<and>
         redis_setex env (''twin:'' @ rid) 3600
           (twin_dict \<lparr>twin_resource_id = rid, state = [(''status'', VStr ''active'')],
              predictions = None, accuracy = 0.75 + r_create * 0.2\<rparr>) = Some e"
proof (cases "twins self rid")
  case (Some twin)
  from assms show ?thesis
    unfolding update_twin_existing [OF Some] by simp
next
  case None
  let ?fresh = "\<lparr>twin_resource_id = rid, state = [(''status'', VStr ''active'')],
      predictions = None, accuracy = 0.75 + r_create * 0.2\<rparr>"
  show ?thesis
  proof (cases "redis_setex env (''twin:'' @ rid) 3600 (twin_dict ?fresh)")
    case n: None
    from assms show ?thesis
      unfolding update_twin_absent_created [OF None n] by simp
  next
    case s: (Some e')
    from assms have "e' = e"
      unfolding update_twin_absent_raises [OF None s] by simp
    with None s show ?thesis by simp
  qed
qed

text \<open>
  Claim C9. Whatever the time-series store does, \<^verbatim>\<open>update_twin\<close> leaves the registry
  and returns the value that it would with a store that never fails. A registered id
  always gets its updated twin returned and registered. An exception can leave
  \<^verbatim>\<open>update_twin\<close> only from the cache write of the \<^verbatim>\<open>create_twin\<close> call made for an
  unknown id, never from \<^verbatim>\<open>store_twin_data\<close>. When the store raises, the last event of
  the call is the log line of the failure.
\<close>

theorem update_twin_swallows_persistence_failure:
  "fst (update_twin env self rid metrics r_create r_perf) =
     fst (update_twin (influx_healthy env) self rid metrics r_create r_perf) \<and>
   snd (snd (update_twin env self rid metrics r_create r_perf)) =
     snd (snd (update_twin (influx_healthy env) self rid metrics r_create r_perf)) \<and>
   (\<forall>twin. twins self rid = Some twin \<longrightarrow>
      (\<exists>twin'. snd (snd (update_twin env self rid metrics r_create r_perf)) = Inr twin' \<and>
         twins (fst (update_twin env self rid metrics r_create r_perf)) rid = Some twin' \<and>
         predictions twin' \<noteq> None \<and>
         accuracy twin' = min 0.99 (accuracy twin + 0.001))) \<and>
   (\<forall>e. snd (snd (update_twin env self rid metrics r_create r_perf)) = Inl e \<longrightarrow>
      twins self rid = None \<and>
      redis_setex env (''twin:'' @ rid) 3600
        (twin_dict \<lparr>twin_resource_id = rid, state = [(''status'', VStr ''active'')],
           predictions = None, accuracy = 0.75 + r_create * 0.2\<rparr>) = Some e) \<and>
   (\<forall>twin' e. snd (snd (update_twin env self rid metrics r_create r_perf)) = Inr twin' \<and>
      snd (store_twin_data_try env twin' metrics) = Some e \<longrightarrow>
      fst (snd (update_twin env self rid metrics r_create r_perf)) \<noteq> [] \<and>
      last (fst (snd (update_twin env self rid metrics r_create r_perf))) =
        LogError (''Failed to store twin data: '' @ exn_str env e))"
proof (intro conjI allI impI)
  show "fst (update_twin env self rid metrics r_create r_perf) =
     fst (update_twin (influx_healthy env) self rid metrics r_create r_perf)"
    by (simp add: update_twin_registry_influx)
  show "snd (snd (update_twin env self rid metrics r_create r_perf)) =
     snd (snd (update_twin (influx_healthy env) self rid metrics r_create r_perf))"
    by (simp add: update_twin_result_influx)
next
  fix twin assume "twins self rid = Some twin"
  then show "\<exists>twin'. snd (snd (update_twin env self rid metrics r_create r_perf)) = Inr twin' \<and>
         twins (fst (update_twin env self rid metrics r_create r_perf)) rid = Some twin' \<and>
         predictions twin' \<noteq> None \<and>
         accuracy twin' = min 0.99 (accuracy twin + 0.001)"
    by (simp add: update_twin_existing)
next
  fix e assume r: "snd (snd (update_twin env self rid metrics r_create r_perf)) = Inl e"
  from update_twin_raises_only_cache [OF r]
  show "twins self rid = None" and "redis_setex env (''twin:'' @ rid) 3600
        (twin_dict \<lparr>twin_resource_id = rid, state = [(''status'', VStr ''active'')],
           predictions = None, accuracy = 0.75 + r_create * 0.2\<rparr>) = Some e"
    by simp_all
next
  fix twin' e
  assume a: "snd (snd (update_twin env self rid metrics r_create r_perf)) = Inr twin' \<and>
      snd (store_twin_data_try env twin' metrics) = Some e"
  from update_twin_returned_events [OF a [THEN conjunct1]] obtain evs where
    evs: "fst (snd (update_twin env self rid metrics r_create r_perf)) =
           evs @ store_twin_data env twin' metrics" by blast
  show "fst (snd (update_twin env self rid metrics r_create r_perf)) \<noteq> []"
    unfolding evs store_twin_data_logs [OF a [THEN conjunct2]] by simp
  show "last (fst (snd (update_twin env self rid metrics r_create r_perf))) =
        LogError (''Failed to store twin data: '' @ exn_str env e)"
    unfolding evs store_twin_data_logs [OF a [THEN conjunct2]] by simp
qed

theorem update_twin_swallows_persistence_failure_witness:
  "twins engine_r1 ''r1'' =
     Some \<lparr>twin_resource_id = ''r1'', state = [(''status'', VStr ''active'')],
          predictions = Some [(''cost'', VDict [(''predicted_cost'', VFloat 0)])],
          accuracy = 9 / 10\<rparr> \<and>
   influx_write_api env_influx_down = Some (Raised ''connection refused'') \<and>
   (\<exists>twin'. snd (snd (update_twin env_influx_down engine_r1 ''r1'' [sample 80 60 40 20] 0 0)) =
        Inr twin' \<and>
      twins (fst (update_twin env_influx_down engine_r1 ''r1'' [sample 80 60 40 20] 0 0)) ''r1'' =
        Some twin' \<and>
      accuracy twin' = 901 / 1000) \<and>
   last (fst (snd (update_twin env_influx_down engine_r1 ''r1'' [sample 80 60 40 20] 0 0))) =
     LogError ''Failed to store twin data: connection refused''"
proof -
  let ?u = "update_twin env_influx_down engine_r1 ''r1'' [sample 80 60 40 20] 0 0"
  note t = update_twin_swallows_persistence_failure
    [of env_influx_down engine_r1 "''r1''" "[sample 80 60 40 20]" 0 0]
  have old: "twins engine_r1 ''r1'' =
     Some \<lparr>twin_resource_id = ''r1'', state = [(''status'', VStr ''active'')],
          predictions = Some [(''cost'', VDict [(''predicted_cost'', VFloat 0)])],
          accuracy = 9 / 10\<rparr>"
    by (simp add: engine_r1_def)
  have down: "influx_write_api env_influx_down = Some (Raised ''connection refused'')"
    by (simp add: env_influx_down_def)
  note t3 = t [THEN conjunct2, THEN conjunct2, THEN conjunct1, rule_format, OF old]
  note t5 = t [THEN conjunct2, THEN conjunct2, THEN conjunct2, THEN conjunct2, rule_format]
  from t3 obtain twin' where
    r: "snd (snd ?u) = Inr twin'" and
    g: "twins (fst ?u) ''r1'' = Some twin'" and
    a: "accuracy twin' = min 0.99 (accuracy
          \<lparr>twin_resource_id = ''r1'', state = [(''status'', VStr ''active'')],
           predictions = Some [(''cost'', VDict [(''predicted_cost'', VFloat 0)])],
           accuracy = 9 / 10\<rparr> + 0.001)"
    by blast
  have a': "accuracy twin' = 901 / 1000"
    unfolding a by simp
  have f: "snd (store_twin_data_try env_influx_down twin' [sample 80 60 40 20]) =
      Some (Raised ''connection refused'')"
    by (simp add: store_twin_data_try_def down)
  from t5 [OF conjI [OF r f]] have "last (fst (snd ?u)) =
      LogError (''Failed to store twin data: '' @
        exn_str env_influx_down (Raised ''connection refused''))"
    by (rule conjunct2)
  then have l: "last (fst (snd ?u)) = LogError ''Failed to store twin data: connection refused''"
    by (simp add: env_influx_down_def env_up_def)
  from old down r g a' l show ?thesis by simp
qed

subsection \<open>The resource type of cost predictions\<close>

lemma cost_features_compute:
  "length (cost_features env metrics default_resource_type) = 8 \<and>
   drop 5 (cost_features env metrics default_resource_type) = [1, 0, 0]"
  by (simp add: cost_features_def default_resource_type_def)

lemma predict_performance_no_cost_call:
  "ModelPredict ''cost'' f \<notin> set (fst (predict_performance env metrics r))"
  by (simp add: predict_performance_def Let_def split: sum.splits prod.splits)

lemma detect_anomalies_no_cost_call:
  "ModelPredict ''cost'' f \<notin> set (fst (detect_anomalies env metrics))"
  by (simp add: detect_anomalies_def Let_def split: sum.splits)

lemma predict_cost_call:
  "ModelPredict ''cost'' f \<in> set (fst (predict_cost env metrics rt)) \<Longrightarrow>
   f = cost_features env metrics rt"
  by (simp add: predict_cost_def Let_def split: sum.splits if_splits)

lemma write_points_no_model_call:
  "ModelPredict name f \<notin> set (fst (write_points env twin i metrics))"
  by (induction metrics arbitrary: i) (simp_all add: case_prod_beta split: option.splits)

lemma store_twin_data_no_model_call:
  "ModelPredict name f \<notin> set (store_twin_data env twin metrics)"
proof (cases "influx_write_api env")
  case None
  then show ?thesis
    using write_points_no_model_call [of name f env twin 0 metrics]
    by (cases "write_points env twin 0 metrics")
       (auto simp add: store_twin_data_def store_twin_data_try_def split: option.splits)
next
  case (Some e)
  then show ?thesis
    by (simp add: store_twin_data_def store_twin_data_try_def)
qed

lemma update_twin_cost_call:
  assumes "ModelPredict ''cost'' f \<in> set (fst (snd (update_twin env self rid metrics r_create r_perf)))"
  shows "f = cost_features env metrics default_resource_type"
proof (cases "twins self rid")
  case (Some twin)
  from assms show ?thesis
    unfolding update_twin_existing [OF Some]
    by (auto simp add: predict_performance_no_cost_call detect_anomalies_no_cost_call
        store_twin_data_no_model_call dest: predict_cost_call)
next
  case None
  let ?fresh = "\<lparr>twin_resource_id = rid, state = [(''status'', VStr ''active'')],
      predictions = None, accuracy = 0.75 + r_create * 0.2\<rparr>"
  show ?thesis
  proof (cases "redis_setex env (''twin:'' @ rid) 3600 (twin_dict ?fresh)")
    case n: None
    from assms show ?thesis
      unfolding update_twin_absent_created [OF None n]
      by (auto simp add: predict_performance_no_cost_call detect_anomalies_no_cost_call
          store_twin_data_no_model_call dest: predict_cost_call)
  next
    case s: (Some e)
    from assms show ?thesis
      unfolding update_twin_absent_raises [OF None s] by simp
  qed
qed

lemma predict_metrics_cost_call:
  assumes "ModelPredict ''cost'' f \<in> set (fst (predict_metrics env request r))"
  shows "f = cost_features env (req_metrics request) default_resource_type"
  using assms predict_performance_no_cost_call [of f env "req_metrics request" r]
    detect_anomalies_no_cost_call [of f env "req_metrics request"]
    predict_cost_call [of f env "req_metrics request" default_resource_type]
  by (auto simp add: predict_metrics_def predict_metrics_try_def Let_def case_prod_beta
      split: if_splits option.splits)

text \<open>
  Claim C10. Every call of the cost model made by \<^verbatim>\<open>update_twin\<close> or by the
  \<^verbatim>\<open>predict_metrics\<close> dispatch passes the feature row built for the default resource
  type \<^verbatim>\<open>compute\<close>: it is 8 wide and its last three entries are 1, 0, 0.
\<close>

theorem cost_calls_use_compute:
  "(\<forall>f. ModelPredict ''cost'' f \<in>
          set (fst (snd (update_twin env self rid metrics r_create r_perf))) \<longrightarrow>
        f = cost_features env metrics ''compute'' \<and> length f = 8 \<and> drop 5 f = [1, 0, 0]) \<and>
   (\<forall>f. ModelPredict ''cost'' f \<in> set (fst (predict_metrics env request r)) \<longrightarrow>
        f = cost_features env (req_metrics request) ''compute'' \<and>
        length f = 8 \<and> drop 5 f = [1, 0, 0])"
proof (intro conjI allI impI)
  fix f
  assume "ModelPredict ''cost'' f \<in>
      set (fst (snd (update_twin env self rid metrics r_create r_perf)))"
  then have f: "f = cost_features env metrics default_resource_type"
    by (rule update_twin_cost_call)
  show "f = cost_features env metrics ''compute''"
    using f by (simp add: default_resource_type_def)
  show "length f = 8" and "drop 5 f = [1, 0, 0]"
    unfolding f using cost_features_compute [of env metrics] by simp_all
next
  fix f
  assume "ModelPredict ''cost'' f \<in> set (fst (predict_metrics env request r))"
  then have f: "f = cost_features env (req_metrics request) default_resource_type"
    by (rule predict_metrics_cost_call)
  show "f = cost_features env (req_metrics request) ''compute''"
    using f by (simp add: default_resource_type_def)
  show "length f = 8" and "drop 5 f = [1, 0, 0]"
    unfolding f using cost_features_compute [of env "req_metrics request"] by simp_all
qed

theorem cost_calls_use_compute_witness:
  "ModelPredict ''cost'' (cost_features env_up [sample 80 60 40 20] ''compute'') \<in>
     set (fst (snd (update_twin env_up engine_r1 ''r1'' [sample 80 60 40 20] 0 0))) \<and>
   ModelPredict ''cost'' (cost_features env_up [sample 80 60 40 20] ''compute'') \<in>
     set (fst (predict_metrics env_up
       \<lparr>req_resource_id = ''r1'', req_metrics = [sample 80 60 40 20],
        req_prediction_type = ''cost''\<rparr> 0)) \<and>
   cost_features env_up [sample 80 60 40 20] ''compute'' = [8 / 10, 6 / 10, 4 / 10, 2 / 10, 1, 1, 0, 0] \<and>
   drop 5 (cost_features env_up [sample 80 60 40 20] ''compute'') = [1, 0, 0]"
proof -
  let ?ms = "[sample 80 60 40 20]"
  let ?f = "cost_features env_up ?ms ''compute''"
  have c: "fst (predict_cost env_up ?ms default_resource_type) = [ModelPredict ''cost'' ?f]"
    by (simp add: predict_cost_def Let_def env_up_def default_resource_type_def)
  have redis: "redis_setex env_up key ttl val = None" for key ttl val
    by (simp add: env_up_def)
  have old: "twins engine_r1 ''r1'' =
     Some \<lparr>twin_resource_id = ''r1'', state = [(''status'', VStr ''active'')],
          predictions = Some [(''cost'', VDict [(''predicted_cost'', VFloat 0)])],
          accuracy = 9 / 10\<rparr>"
    by (simp add: engine_r1_def)
  have u: "ModelPredict ''cost'' ?f \<in>
      set (fst (snd (update_twin env_up engine_r1 ''r1'' ?ms 0 0)))"
    unfolding update_twin_existing [OF old] by (simp add: c)
  have p: "ModelPredict ''cost'' ?f \<in> set (fst (predict_metrics env_up
       \<lparr>req_resource_id = ''r1'', req_metrics = ?ms, req_prediction_type = ''cost''\<rparr> 0))"
    by (simp add: predict_metrics_def predict_metrics_try_def case_prod_beta c Let_def redis)
  note t = cost_calls_use_compute [of env_up engine_r1 "''r1''" ?ms 0 0
      "\<lparr>req_resource_id = ''r1'', req_metrics = ?ms, req_prediction_type = ''cost''\<rparr>" 0]
  from t [THEN conjunct1, rule_format, OF u] have d: "drop 5 ?f = [1, 0, 0]"
    by simp
  have v: "?f = [8 / 10, 6 / 10, 4 / 10, 2 / 10, 1, 1, 0, 0]"
    by (simp add: cost_features_def env_up_def sample_def)
  from u p v d show ?thesis by blast
qed

subsection \<open>Accuracy over repeated updates\<close>

lemma step_le_cap: "min 0.99 (a + 0.001) \<le> (0.99::real)"
  by (rule min.cobounded1)

lemma step_mono: "a \<le> 0.99 \<Longrightarrow> a \<le> min 0.99 (a + 0.001 :: real)"
  by (simp add: min_def)

lemma successively_tail: "successively P (x # xs) \<Longrightarrow> successively P xs"
  by (cases xs) simp_all

lemma fresh_bounds:
  "0 \<le> r \<Longrightarrow> r < 1 \<Longrightarrow> 0.75 \<le> 0.75 + r * 0.2 \<and> 0.75 + r * 0.2 \<le> (0.99::real)"
  by simp

lemma accuracy_bounded_init: "accuracy_bounded engine_init"
  by (simp add: accuracy_bounded_def engine_init_def)

lemma accuracy_bounded_upd:
  assumes "accuracy_bounded self" and "0.75 \<le> accuracy twin" and "accuracy twin \<le> 0.99"
  shows "accuracy_bounded (self\<lparr>twins := (twins self)(rid \<mapsto> twin)\<rparr>)"
  using assms unfolding accuracy_bounded_def by auto

lemma accuracy_bounded_create:
  assumes "accuracy_bounded self" and "0 \<le> r" and "r < 1"
  shows "accuracy_bounded (fst (create_twin env self rid initial_state r))"
  unfolding create_twin_registry
  by (rule accuracy_bounded_upd [OF assms(1)]) (use assms(2,3) in \<open>simp_all\<close>)

lemma accuracy_bounded_update:
  assumes "accuracy_bounded self" and "0 \<le> r_create" and "r_create < 1"
  shows "accuracy_bounded (fst (update_twin env self rid metrics r_create r_perf))"
proof (cases "twins self rid")
  case (Some twin)
  with assms(1) have b: "0.75 \<le> accuracy twin" "accuracy twin \<le> 0.99"
    by (auto simp add: accuracy_bounded_def)
  show ?thesis
    unfolding update_twin_existing [OF Some] fst_conv
    by (rule accuracy_bounded_upd [OF assms(1)]) (use b in \<open>simp_all add: min_def\<close>)
next
  case None
  let ?fresh = "\<lparr>twin_resource_id = rid, state = [(''status'', VStr ''active'')],
      predictions = None, accuracy = 0.75 + r_create * 0.2\<rparr>"
  show ?thesis
  proof (cases "redis_setex env (''twin:'' @ rid) 3600 (twin_dict ?fresh)")
    case n: None
    show ?thesis
      unfolding update_twin_absent_created [OF None n] fst_conv
      by (rule accuracy_bounded_upd [OF assms(1)]) (use assms(2,3) in \<open>simp_all add: min_def\<close>)
  next
    case s: (Some e)
    show ?thesis
      unfolding update_twin_absent_raises [OF None s] fst_conv
      by (rule accuracy_bounded_upd [OF assms(1)]) (use assms(2,3) in \<open>simp_all\<close>)
  qed
qed

lemma reachable_accuracy_bounded:
  "reachable self \<Longrightarrow> accuracy_bounded self"
  by (induction rule: reachable.induct)
     (simp_all add: accuracy_bounded_init accuracy_bounded_create accuracy_bounded_update)

lemma accuracy_trace_existing:
  assumes "twins self rid = Some twin" and "accuracy twin \<le> 0.99"
  shows "sorted (accuracy twin # accuracy_trace self rid calls) \<and>
         (\<forall>a \<in> set (accuracy_trace self rid calls). a \<le> 0.99) \<and>
         successively (\<lambda>a b. b = min 0.99 (a + 0.001))
           (accuracy twin # accuracy_trace self rid calls)"
  using assms
proof (induction calls arbitrary: self twin)
  case Nil
  then show ?case by simp
next
  case (Cons call calls)
  obtain env metrics r_create r_perf where call: "call = (env, metrics, r_create, r_perf)"
    by (cases call) auto
  let ?twin' = "twin\<lparr>predictions := Some
                 [(''performance'', VDict (snd (predict_performance env metrics r_perf))),
                  (''anomaly'', VDict (snd (detect_anomalies env metrics))),
                  (''cost'', VDict (snd (predict_cost env metrics default_resource_type)))],
              accuracy := min 0.99 (accuracy twin + 0.001)\<rparr>"
  let ?self' = "self\<lparr>twins := (twins self)(rid \<mapsto> ?twin')\<rparr>"
  have tr: "accuracy_trace self rid (call # calls) =
      accuracy ?twin' # accuracy_trace ?self' rid calls"
    unfolding call by (simp add: update_twin_existing [OF Cons.prems(1)])
  have reg: "twins ?self' rid = Some ?twin'" by simp
  have acc: "accuracy ?twin' = min 0.99 (accuracy twin + 0.001)" by simp
  have le: "accuracy ?twin' \<le> 0.99"
    unfolding acc by (rule step_le_cap)
  have step: "accuracy twin \<le> accuracy ?twin'"
    unfolding acc using Cons.prems(2) by (rule step_mono)
  note ih = Cons.IH [OF reg le]
  have 1: "sorted (accuracy twin # accuracy ?twin' # accuracy_trace ?self' rid calls)"
    using ih step by fastforce
  have 2: "\<forall>a \<in> set (accuracy ?twin' # accuracy_trace ?self' rid calls). a \<le> 0.99"
    using ih le by simp
  have 3: "successively (\<lambda>a b. b = min 0.99 (a + 0.001))
      (accuracy twin # accuracy ?twin' # accuracy_trace ?self' rid calls)"
    using ih acc by simp
  from 1 2 3 show ?case
    unfolding tr by blast
qed

text \<open>
  Claim C3. From any registry that the service can reach, a run of \<^verbatim>\<open>update_twin\<close>
  calls on one resource id returns twins whose accuracies never decrease and never
  exceed 0.99; each accuracy is the one before plus the fixed step 0.001, cut at 0.99.
\<close>

theorem update_twin_accuracy_monotone:
  assumes "reachable self" and "list_all draws_ok calls"
  shows "sorted (accuracy_trace self rid calls) \<and>
         (\<forall>a \<in> set (accuracy_trace self rid calls). a \<le> 0.99) \<and>
         successively (\<lambda>a b. b = min 0.99 (a + 0.001)) (accuracy_trace self rid calls)"
proof (cases "twins self rid")
  case (Some twin)
  from reachable_accuracy_bounded [OF assms(1)] Some have "accuracy twin \<le> 0.99"
    by (auto simp add: accuracy_bounded_def)
  from accuracy_trace_existing [OF Some this, of calls] show ?thesis
    by (auto dest: successively_tail)
next
  case None
  then show ?thesis using assms(2)
  proof (induction calls arbitrary: self)
    case Nil
    then show ?case by simp
  next
    case (Cons call calls)
    obtain env metrics r_create r_perf where call: "call = (env, metrics, r_create, r_perf)"
      by (cases call) auto
    from Cons.prems(2) call have r: "0 \<le> r_create" "r_create < 1" by simp_all
    let ?fresh = "\<lparr>twin_resource_id = rid, state = [(''status'', VStr ''active'')],
        predictions = None, accuracy = 0.75 + r_create * 0.2\<rparr>"
    show ?case
    proof (cases "redis_setex env (''twin:'' @ rid) 3600 (twin_dict ?fresh)")
      case n: None
      let ?twin' = "\<lparr>twin_resource_id = rid, state = [(''status'', VStr ''active'')],
          predictions = Some
            [(''performance'', VDict (snd (predict_performance env metrics r_perf))),
             (''anomaly'', VDict (snd (detect_anomalies env metrics))),
             (''cost'', VDict (snd (predict_cost env metrics default_resource_type)))],
          accuracy = min 0.99 (0.75 + r_create * 0.2 + 0.001)\<rparr>"
      let ?self' = "self\<lparr>twins := (twins self)(rid \<mapsto> ?twin')\<rparr>"
      have tr: "accuracy_trace self rid (call # calls) =
          accuracy ?twin' # accuracy_trace ?self' rid calls"
        unfolding call by (simp add: update_twin_absent_created [OF Cons.prems(1) n])
      have reg: "twins ?self' rid = Some ?twin'" by simp
      have le: "accuracy ?twin' \<le> 0.99"
        using step_le_cap [of "0.75 + r_create * 0.2"] by simp
      from accuracy_trace_existing [OF reg le, of calls] le show ?thesis
        unfolding tr by simp
    next
      case s: (Some e)
      let ?self' = "self\<lparr>twins := (twins self)(rid \<mapsto> ?fresh)\<rparr>"
      have tr: "accuracy_trace self rid (call # calls) = accuracy_trace ?self' rid calls"
        unfolding call by (simp add: update_twin_absent_raises [OF Cons.prems(1) s])
      have reg: "twins ?self' rid = Some ?fresh" by simp
      have le: "accuracy ?fresh \<le> 0.99"
        using fresh_bounds [OF r] by simp
      from accuracy_trace_existing [OF reg le, of calls] show ?thesis
        unfolding tr by (auto dest: successively_tail)
    qed
  qed
qed

theorem update_twin_accuracy_monotone_witness:
  "reachable engine_init \<and>
   list_all draws_ok
     [(env_up, [sample 80 60 40 20], 1 / 4, 0), (env_influx_down, [], 0, 0),
      (env_up, [], 0, 0)] \<and>
   accuracy_trace engine_init ''r1''
     [(env_up, [sample 80 60 40 20], 1 / 4, 0), (env_influx_down, [], 0, 0),
      (env_up, [], 0, 0)] = [801 / 1000, 802 / 1000, 803 / 1000] \<and>
   sorted (accuracy_trace engine_init ''r1''
     [(env_up, [sample 80 60 40 20], 1 / 4, 0), (env_influx_down, [], 0, 0),
      (env_up, [], 0, 0)]) \<and>
   successively (\<lambda>a b. b = min 0.99 (a + 0.001))
     (accuracy_trace engine_init ''r1''
       [(env_up, [sample 80 60 40 20], 1 / 4, 0), (env_influx_down, [], 0, 0),
        (env_up, [], 0, 0)])"
proof -
  let ?calls = "[(env_up, [sample 80 60 40 20], 1 / 4, 0), (env_influx_down, [], 0, 0),
      (env_up, [], 0, 0)]"
  have r: "reachable engine_init"
    by (rule reachable_init)
  have d: "list_all draws_ok ?calls"
    by simp
  have redis: "redis_setex env_up key ttl val = None" for key ttl val
    by (simp add: env_up_def)
  have absent: "twins engine_init ''r1'' = None"
    by (simp add: engine_init_def)
  have v: "accuracy_trace engine_init ''r1'' ?calls = [801 / 1000, 802 / 1000, 803 / 1000]"
    by (simp add: update_twin_absent_created [OF absent redis] update_twin_existing)
  note t = update_twin_accuracy_monotone [OF r d, of "''r1''"]
  from r d v t show ?thesis by blast
qed

end
